theory Spec2Isabelle
  imports Main
begin

section \<open>Data model of the gateway\<close>

text \<open>
  The gateway of \<^verbatim>\<open>jai_mcp/gateway\<close> raises \<^verbatim>\<open>HTTPException(status_code, detail)\<close> to
  reject a request. A raise is a value here: every function that can raise returns
  \<open>http_exception + 'a\<close>, with \<open>Inl\<close> for the exception.
\<close>

datatype http_exception = HTTPException (status_code: nat) (detail: string)

text \<open>
  The user is a Python dict read with \<^verbatim>\<open>user.get(key, default)\<close>: each key may be
  missing, so each field is optional. \<open>user_id\<close> is the key \<^verbatim>\<open>"id"\<close>.
\<close>

record user =
  user_id :: "string option"
  email :: "string option"
  roles :: "string list option"
  tenant_id :: "string option"
  permissions :: "string list option"

definition get_or :: "'a option \<Rightarrow> 'a \<Rightarrow> 'a" where
  "get_or v d = (case v of None \<Rightarrow> d | Some x \<Rightarrow> x)"

record HTTPAuthorizationCredentials =
  scheme :: string
  credentials :: string

text \<open>A header dict: keys are compared exactly, as a Python \<^verbatim>\<open>dict\<close> does.\<close>

type_synonym hdict = "string \<rightharpoonup> string"

section \<open>auth.py\<close>

subsection \<open>The bearer scheme\<close>

definition lower_char :: "char \<Rightarrow> char" where
  "lower_char c =
     (case map_of (zip ''ABCDEFGHIJKLMNOPQRSTUVWXYZ'' ''abcdefghijklmnopqrstuvwxyz'') c of
        None \<Rightarrow> c
      | Some l \<Rightarrow> l)"

definition lower :: "string \<Rightarrow> string" where
  "lower s = map lower_char s"

text \<open>\<^verbatim>\<open>s.partition(" ")\<close>: the text before the first space and the text after it.\<close>

definition partition_space :: "string \<Rightarrow> string \<times> string" where
  "partition_space s =
     (takeWhile (\<lambda>c. c \<noteq> CHR '' '') s, drop 1 (dropWhile (\<lambda>c. c \<noteq> CHR '' '') s))"

text \<open>
  Modelled from the spec: the object \<^verbatim>\<open>security = HTTPBearer()\<close> is the web framework's
  bearer scheme, whose code is not part of the repository. Section 4.1 of the
  specification gives its contract: the credential is pulled from the Authorization
  header, and a header that is absent or whose scheme is not a bearer token yields no
  credential. The model splits the header value at the first space, compares the scheme
  with \<^verbatim>\<open>bearer\<close> ignoring case, and hands \<open>None\<close> to \<open>verify_api_key\<close> otherwise, which
  is the case the first branch of \<open>verify_api_key\<close> is written for.
\<close>

definition security :: "string option \<Rightarrow> HTTPAuthorizationCredentials option" where
  "security authorization =
     (case authorization of
        None \<Rightarrow> None
      | Some v \<Rightarrow>
          (let (sch, cred) = partition_space v
           in if sch = [] \<or> cred = [] then None
              else if lower sch \<noteq> ''bearer'' then None
              else Some \<lparr>scheme = sch, credentials = cred\<rparr>))"

subsection \<open>verify_api_key\<close>

definition verify_api_key :: "HTTPAuthorizationCredentials option \<Rightarrow> http_exception + string" where
  "verify_api_key creds =
     (case creds of
        None \<Rightarrow> Inl (HTTPException 401 ''API key required'')
      | Some c \<Rightarrow>
          (let api_key = credentials c
           in if api_key = [] \<or> length api_key < 32
              then Inl (HTTPException 401 ''Invalid API key'')
              else Inr api_key))"

subsection \<open>get_user_from_api_key\<close>

definition get_user_from_api_key :: "string \<Rightarrow> user" where
  "get_user_from_api_key api_key =
     \<lparr>user_id = Some ''admin-user-123'',
      email = Some ''admin@example.com'',
      roles = Some [''system_admin''],
      tenant_id = Some ''default'',
      permissions = Some [''mcp_access'', ''module_management'', ''project_management'']\<rparr>"

subsection \<open>verify_admin_access\<close>

definition admin_roles :: "string list" where
  "admin_roles = [''system_admin'', ''org_admin'']"

text \<open>
  The body of \<^verbatim>\<open>verify_admin_access\<close> after the lookup of the user. \<open>ALLOWED_ADMINS\<close>
  is the module constant read from \<^verbatim>\<open>JAI_ALLOWED_ADMINS\<close>, taken as a parameter.
\<close>

definition check_admin :: "string list \<Rightarrow> user \<Rightarrow> http_exception + user" where
  "check_admin ALLOWED_ADMINS usr =
     (let user_roles = get_or (roles usr) []
      in if \<not> list_ex (\<lambda>role. List.member admin_roles role) user_roles
         then Inl (HTTPException 403 ''MCP access requires admin privileges'')
         else if ALLOWED_ADMINS \<noteq> [] \<and> \<not> List.member ALLOWED_ADMINS (get_or (email usr) [])
         then Inl (HTTPException 403 ''Admin not authorized for MCP access'')
         else Inr usr)"

definition verify_admin_access :: "string list \<Rightarrow> string \<Rightarrow> http_exception + user" where
  "verify_admin_access ALLOWED_ADMINS api_key =
     check_admin ALLOWED_ADMINS (get_user_from_api_key api_key)"

subsection \<open>get_tenant_from_request and verify_tenant_access\<close>

text \<open>
  \<^verbatim>\<open>request.headers.get("X-Tenant-ID")\<close>: the request's header object stores names in
  lower case and looks a name up in lower case. The argument is the request's headers
  with lower-case names.
\<close>

definition get_tenant_from_request :: "hdict \<Rightarrow> http_exception + string" where
  "get_tenant_from_request request_headers =
     (case request_headers (lower ''X-Tenant-ID'') of
        None \<Rightarrow> Inl (HTTPException 400 ''Tenant ID required in X-Tenant-ID header'')
      | Some tenant \<Rightarrow>
          if tenant = [] then Inl (HTTPException 400 ''Tenant ID required in X-Tenant-ID header'')
          else Inr tenant)"

definition verify_tenant_access :: "string \<Rightarrow> user \<Rightarrow> http_exception + string" where
  "verify_tenant_access tenant usr =
     (let user_tenant = tenant_id usr
      in if List.member (get_or (roles usr) []) ''system_admin'' then Inr tenant
         else if user_tenant \<noteq> Some tenant
         then Inl (HTTPException 403 ''Cross-tenant access denied'')
         else Inr tenant)"

section \<open>proxy.py\<close>

subsection \<open>Header rewriting\<close>

text \<open>\<^verbatim>\<open>sep.join(xs)\<close>.\<close>

fun join :: "string \<Rightarrow> string list \<Rightarrow> string" where
  "join sep [] = []"
| "join sep [x] = x"
| "join sep (x # y # ys) = x @ sep @ join sep (y # ys)"

text \<open>
  \<^verbatim>\<open>_prepare_internal_headers\<close> as a function from the inbound dict to the dict it
  returns. \<open>JAI_INTERNAL_API_KEY\<close> is what \<^verbatim>\<open>os.getenv\<close> reads: \<open>None\<close> when the
  variable is unset; an empty value is falsy. The entries of \<^verbatim>\<open>headers.update\<close> are
  computed before any of them is stored, so \<^verbatim>\<open>x-forwarded-for\<close> is read from the copy
  of the inbound dict.
\<close>

definition prepare_internal_headers ::
  "string option \<Rightarrow> hdict \<Rightarrow> string \<Rightarrow> user \<Rightarrow> hdict" where
  "prepare_internal_headers JAI_INTERNAL_API_KEY original_headers tenant usr =
     (let headers = original_headers;
          headers = headers
            (''X-Forwarded-For'' \<mapsto> get_or (headers ''x-forwarded-for'') ''unknown'',
             ''X-Forwarded-Proto'' \<mapsto> ''https'',
             ''X-Gateway-User-ID'' \<mapsto> get_or (user_id usr) ''unknown'',
             ''X-Gateway-User-Email'' \<mapsto> get_or (email usr) ''unknown'',
             ''X-Gateway-User-Roles'' \<mapsto> join '','' (get_or (roles usr) []),
             ''X-Gateway-Tenant-ID'' \<mapsto> tenant,
             ''X-Gateway-Source'' \<mapsto> ''mcp-gateway'');
          headers = headers(''authorization'' := None)
      in case JAI_INTERNAL_API_KEY of
           None \<Rightarrow> headers
         | Some internal_api_key \<Rightarrow>
             if internal_api_key \<noteq> [] then headers(''X-Internal-API-Key'' \<mapsto> internal_api_key)
             else headers)"

text \<open>
  The set literal of \<^verbatim>\<open>forward_request\<close>, as a list; the loop pops each name, and the
  order of a Python set is not fixed (see \<open>remove_hop_by_hop_order\<close> below).
\<close>

definition hop_by_hop_headers :: "string list" where
  "hop_by_hop_headers =
     [''connection'', ''keep-alive'', ''proxy-authenticate'', ''proxy-authorization'',
      ''te'', ''trailers'', ''transfer-encoding'', ''upgrade'']"

definition pop_all :: "string list \<Rightarrow> hdict \<Rightarrow> hdict" where
  "pop_all names headers = fold (\<lambda>header h. h(header := None)) names headers"

text \<open>
  The header dict that \<^verbatim>\<open>forward_request\<close> passes to the HTTP client: the dict
  returned by \<^verbatim>\<open>_prepare_internal_headers\<close>, with the hop-by-hop names popped.
\<close>

definition outbound_headers :: "string option \<Rightarrow> hdict \<Rightarrow> string \<Rightarrow> user \<Rightarrow> hdict" where
  "outbound_headers JAI_INTERNAL_API_KEY headers tenant usr =
     (let internal_headers = prepare_internal_headers JAI_INTERNAL_API_KEY headers tenant usr
      in pop_all hop_by_hop_headers internal_headers)"

subsection \<open>Header rewriting on a store of dicts\<close>

text \<open>
  Python passes a dict by reference and \<^verbatim>\<open>_prepare_internal_headers\<close> mutates a dict in
  place. To say which dict is mutated, dicts live in a store: a reference is an
  address, \<open>next_ref\<close> is the first address not yet allocated.
\<close>

type_synonym ref = nat

record store =
  cells :: "ref \<Rightarrow> hdict"
  next_ref :: ref

definition dict_copy :: "ref \<Rightarrow> store \<Rightarrow> ref \<times> store" where
  "dict_copy r s =
     (next_ref s, s\<lparr>cells := (cells s)(next_ref s := cells s r), next_ref := Suc (next_ref s)\<rparr>)"

definition dict_get :: "ref \<Rightarrow> string \<Rightarrow> string \<Rightarrow> store \<Rightarrow> string" where
  "dict_get r k d s = get_or (cells s r k) d"

definition dict_setitem :: "ref \<Rightarrow> string \<Rightarrow> string \<Rightarrow> store \<Rightarrow> store" where
  "dict_setitem r k v s = s\<lparr>cells := (cells s)(r := (cells s r)(k \<mapsto> v))\<rparr>"

definition dict_update :: "ref \<Rightarrow> (string \<times> string) list \<Rightarrow> store \<Rightarrow> store" where
  "dict_update r kvs s = fold (\<lambda>(k, v). dict_setitem r k v) kvs s"

definition dict_pop :: "ref \<Rightarrow> string \<Rightarrow> store \<Rightarrow> store" where
  "dict_pop r k s = s\<lparr>cells := (cells s)(r := (cells s r)(k := None))\<rparr>"

definition prepare_internal_headers_ref ::
  "string option \<Rightarrow> ref \<Rightarrow> string \<Rightarrow> user \<Rightarrow> store \<Rightarrow> ref \<times> store" where
  "prepare_internal_headers_ref JAI_INTERNAL_API_KEY original_headers tenant usr s =
     (let (headers, s) = dict_copy original_headers s;
          entries =
            [(''X-Forwarded-For'', dict_get headers ''x-forwarded-for'' ''unknown'' s),
             (''X-Forwarded-Proto'', ''https''),
             (''X-Gateway-User-ID'', get_or (user_id usr) ''unknown''),
             (''X-Gateway-User-Email'', get_or (email usr) ''unknown''),
             (''X-Gateway-User-Roles'', join '','' (get_or (roles usr) [])),
             (''X-Gateway-Tenant-ID'', tenant),
             (''X-Gateway-Source'', ''mcp-gateway'')];
          s = dict_update headers entries s;
          s = dict_pop headers ''authorization'' s
      in case JAI_INTERNAL_API_KEY of
           None \<Rightarrow> (headers, s)
         | Some internal_api_key \<Rightarrow>
             if internal_api_key \<noteq> []
             then (headers, dict_setitem headers ''X-Internal-API-Key'' internal_api_key s)
             else (headers, s))"

subsection \<open>forward_request\<close>

record forwarded_request =
  fr_method :: string
  fr_url :: string
  fr_headers :: hdict
  fr_content :: "string option"

text \<open>
  What the HTTP client hands back: a response of the internal API, whose \<open>json\<close> is the
  value of \<^verbatim>\<open>response.json()\<close> (\<open>None\<close> when it raises \<^verbatim>\<open>ValueError\<close>), or a failure of
  the network (\<^verbatim>\<open>httpx.RequestError\<close>: connection refused, timeout).
\<close>

record upstream_response =
  up_status :: nat
  up_content :: string
  up_json :: "string option"

datatype client_result = Responded upstream_response | NetworkFailure string

text \<open>The exceptions that leave \<^verbatim>\<open>forward_request\<close>; each handler logs and raises again.\<close>

datatype proxy_exception = HTTPStatusError upstream_response | RequestError string

datatype response_data = JsonData string | RawBytes string

text \<open>
  \<^verbatim>\<open>response.raise_for_status()\<close> is called when the status is at least 400, and raises
  for a 4xx or 5xx status.
\<close>

definition raise_for_status :: "upstream_response \<Rightarrow> proxy_exception + unit" where
  "raise_for_status response =
     (if 400 \<le> up_status response \<and> up_status response \<le> 599
      then Inl (HTTPStatusError response) else Inr ())"

text \<open>
  The client is a parameter: the internal API and the network between. The second
  component of the result lists the requests sent to the internal API.
\<close>

definition forward_request ::
  "(forwarded_request \<Rightarrow> client_result) \<Rightarrow> string option \<Rightarrow> string \<Rightarrow> string \<Rightarrow> hdict \<Rightarrow>
   string option \<Rightarrow> string \<Rightarrow> user \<Rightarrow> (proxy_exception + response_data) \<times> forwarded_request list" where
  "forward_request client JAI_INTERNAL_API_KEY method path headers body tenant usr =
     (let internal_headers = outbound_headers JAI_INTERNAL_API_KEY headers tenant usr;
          sent = \<lparr>fr_method = method,
                  fr_url = ''/'' @ dropWhile (\<lambda>c. c = CHR ''/'') path,
                  fr_headers = internal_headers,
                  fr_content = body\<rparr>
      in case client sent of
           NetworkFailure e \<Rightarrow> (Inl (RequestError e), [sent])
         | Responded response \<Rightarrow>
             (case (if 400 \<le> up_status response then raise_for_status response else Inr ()) of
                Inl e \<Rightarrow> (Inl e, [sent])
              | Inr _ \<Rightarrow>
                  (case up_json response of
                     Some j \<Rightarrow> (Inr (JsonData j), [sent])
                   | None \<Rightarrow> (Inr (RawBytes (up_content response)), [sent]))))"

section \<open>logging.py\<close>

datatype audit_handler = FileHandler string | StreamHandler


section \<open>main.py\<close>

text \<open>
  The inbound request. \<open>http_method\<close> is \<^verbatim>\<open>request.method\<close>; \<open>headers\<close> has the
  names in lower case, as the framework's request object gives them to
  \<^verbatim>\<open>dict(request.headers)\<close>; \<open>client_host\<close> is
  \<^verbatim>\<open>request.client.host\<close>, \<open>None\<close> when the server knows no client address; \<open>arrival\<close>
  is the time of the request in seconds.
\<close>

record request =
  http_method :: string
  url_path :: string
  headers :: hdict
  body :: string
  client_host :: "string option"
  arrival :: nat

datatype response_body = Data response_data | Detail string

record response =
  status :: nat
  payload :: response_body

text \<open>
  What the framework sends for the outcome of a route: an \<^verbatim>\<open>HTTPException\<close> becomes a
  response with its status code and detail, a returned value a response with status 200.
\<close>

definition to_response :: "http_exception + response_data \<Rightarrow> response" where
  "to_response r =
     (case r of
        Inl e \<Rightarrow> \<lparr>status = status_code e, payload = Detail (detail e)\<rparr>
      | Inr d \<Rightarrow> \<lparr>status = 200, payload = Data d\<rparr>)"

definition get_remote_address :: "request \<Rightarrow> string" where
  "get_remote_address req = get_or (client_host req) ''127.0.0.1''"

subsection \<open>The rate limiter\<close>

text \<open>The limit of the decorator \<^verbatim>\<open>limiter.limit("60/minute")\<close>: 60 requests in 60 seconds.\<close>

definition limit_count :: nat where
  "limit_count = 60"

definition limit_window :: nat where
  "limit_window = 60"

text \<open>Per key: the start of its window and the requests counted in it.\<close>

type_synonym limiter_state = "string \<rightharpoonup> nat \<times> nat"

text \<open>
  Modelled from the spec: the limiter object \<^verbatim>\<open>Limiter(key_func=get_remote_address)\<close>
  and its decorator come from a library that is not part of the repository. Section 4.4
  of the specification describes it: a fixed-window counter per key, at most N requests
  per window of W seconds, the window starting at the key's first request in it; the
  request after the Nth inside the active window is rejected. The result says whether
  the request at time \<open>now\<close> is admitted, with the new state.
\<close>

definition limiter_hit :: "limiter_state \<Rightarrow> string \<Rightarrow> nat \<Rightarrow> bool \<times> limiter_state" where
  "limiter_hit st key now =
     (case st key of
        None \<Rightarrow> (True, st(key \<mapsto> (now, 1)))
      | Some (window_start, n) \<Rightarrow>
          if window_start + limit_window \<le> now then (True, st(key \<mapsto> (now, 1)))
          else if n < limit_count then (True, st(key \<mapsto> (window_start, Suc n)))
          else (False, st))"

subsection \<open>proxy_request\<close>

text \<open>
  The global \<^verbatim>\<open>proxy\<close> is \<open>None\<close> until startup has run; afterwards it holds the HTTP
  client. The result pairs the outcome with the requests sent to the internal API.
\<close>

definition proxy_request ::
  "(forwarded_request \<Rightarrow> client_result) option \<Rightarrow> string option \<Rightarrow> request \<Rightarrow> string \<Rightarrow>
   user \<Rightarrow> string \<Rightarrow> (http_exception + response_data) \<times> forwarded_request list" where
  "proxy_request proxy JAI_INTERNAL_API_KEY req path admin_user tenant =
     (case proxy of
        None \<Rightarrow> (Inl (HTTPException 503 ''Gateway not ready''), [])
      | Some client \<Rightarrow>
          (let (r, sent) =
                 forward_request client JAI_INTERNAL_API_KEY (http_method req) path (headers req)
                   (if List.member [''POST'', ''PUT''] (http_method req) then Some (body req) else None)
                   tenant admin_user
           in case r of
                Inr response_data \<Rightarrow> (Inr response_data, sent)
              | Inl e \<Rightarrow> (Inl (HTTPException 500 ''Internal server error''), sent)))"

text \<open>
  The route \<^verbatim>\<open>/api/{path}\<close>. The framework computes the arguments of the endpoint
  first: \<^verbatim>\<open>admin_user\<close> from \<^verbatim>\<open>Depends(verify_admin_access)\<close> (which depends on
  \<^verbatim>\<open>verify_api_key\<close>, which depends on \<^verbatim>\<open>security\<close>), then \<^verbatim>\<open>tenant\<close> from
  \<^verbatim>\<open>Depends(get_tenant_from_request)\<close>; an exception raised there is the response and the
  endpoint is not called.
\<close>

definition solve_dependencies :: "string list \<Rightarrow> request \<Rightarrow> http_exception + user \<times> string" where
  "solve_dependencies ALLOWED_ADMINS req =
     (case verify_api_key (security (headers req ''authorization'')) of
        Inl e \<Rightarrow> Inl e
      | Inr api_key \<Rightarrow>
          (case verify_admin_access ALLOWED_ADMINS api_key of
             Inl e \<Rightarrow> Inl e
           | Inr admin_user \<Rightarrow>
               (case get_tenant_from_request (headers req) of
                  Inl e \<Rightarrow> Inl e
                | Inr tenant \<Rightarrow> Inr (admin_user, tenant))))"

text \<open>
  The endpoint the framework then calls is \<^verbatim>\<open>proxy_request\<close> wrapped by
  \<^verbatim>\<open>limiter.limit("60/minute")\<close>: the wrapper counts the request under the key
  \<^verbatim>\<open>get_remote_address(request)\<close> and raises \<^verbatim>\<open>RateLimitExceeded\<close>, which the handler
  registered in \<^verbatim>\<open>main.py\<close> turns into a 429 response, or it calls \<^verbatim>\<open>proxy_request\<close>.
  \<^verbatim>\<open>main.py\<close> installs no middleware of the limiter, so the limit is checked nowhere
  else.
\<close>

definition api_route ::
  "string list \<Rightarrow> (forwarded_request \<Rightarrow> client_result) option \<Rightarrow> string option \<Rightarrow>
   request \<Rightarrow> string \<Rightarrow> limiter_state \<Rightarrow>
   (http_exception + response_data) \<times> limiter_state \<times> forwarded_request list" where
  "api_route ALLOWED_ADMINS proxy JAI_INTERNAL_API_KEY req path st =
     (case solve_dependencies ALLOWED_ADMINS req of
        Inl e \<Rightarrow> (Inl e, st, [])
      | Inr (admin_user, tenant) \<Rightarrow>
          (let (admitted, st') = limiter_hit st (get_remote_address req) (arrival req)
           in if \<not> admitted
              then (Inl (HTTPException 429 ''Rate limit exceeded''), st', [])
              else (let (r, sent) =
                          proxy_request proxy JAI_INTERNAL_API_KEY req path admin_user tenant
                    in (r, st', sent))))"

subsection \<open>audit_middleware\<close>

datatype audit_record =
    RequestReceived string string string "string option"
  | RequestCompleted nat string

datatype effect = Audit audit_record | Forward forwarded_request

text \<open>
  \<^verbatim>\<open>call_next\<close> is the rest of the application, run on the state \<open>st\<close> of the process.
  It returns the response, the new state and the effects it had, in order. The result
  of the middleware has all effects in order: the record written before the call, the
  effects of the call, the record written after it. \<open>RequestReceived\<close> holds method,
  path, client address and user agent; \<open>RequestCompleted\<close> holds status code and path.
\<close>

definition audit_middleware ::
  "audit_handler option \<Rightarrow> request \<Rightarrow> (request \<Rightarrow> 's \<Rightarrow> response \<times> 's \<times> effect list) \<Rightarrow>
   's \<Rightarrow> response \<times> 's \<times> effect list" where
  "audit_middleware audit_logger req call_next st =
     (let before =
            (case audit_logger of
               None \<Rightarrow> []
             | Some _ \<Rightarrow>
                 [Audit (RequestReceived (http_method req) (url_path req) (get_remote_address req)
                           (headers req ''user-agent''))]);
          (resp, st', inner) = call_next req st;
          after =
            (case audit_logger of
               None \<Rightarrow> []
             | Some _ \<Rightarrow> [Audit (RequestCompleted (status resp) (url_path req))])
      in (resp, st', before @ inner @ after))"

subsection \<open>The application\<close>

text \<open>
  The routes of \<^verbatim>\<open>main.py\<close> under the middleware: \<^verbatim>\<open>GET /health\<close>, and \<^verbatim>\<open>/api/{path}\<close>
  for the four methods of the route, where \<open>path\<close> is the rest of the URL path. A path
  with no route is answered 404 and a method a route does not list 405, by the
  framework. The body of the health probe is the JSON object with \<^verbatim>\<open>status\<close>
  \<^verbatim>\<open>healthy\<close> and \<^verbatim>\<open>service\<close> \<^verbatim>\<open>jai-mcp-gateway\<close>, written here without its quotes.
\<close>

definition route_methods :: "string list" where
  "route_methods = [''GET'', ''POST'', ''PUT'', ''DELETE'']"

definition app ::
  "string list \<Rightarrow> (forwarded_request \<Rightarrow> client_result) option \<Rightarrow> string option \<Rightarrow>
   request \<Rightarrow> limiter_state \<Rightarrow> response \<times> limiter_state \<times> effect list" where
  "app ALLOWED_ADMINS proxy JAI_INTERNAL_API_KEY req st =
     (if url_path req = ''/health''
      then (if http_method req = ''GET''
            then (\<lparr>status = 200, payload = Data (JsonData ''{status: healthy, service: jai-mcp-gateway}'')\<rparr>, st, [])
            else (\<lparr>status = 405, payload = Detail ''Method Not Allowed''\<rparr>, st, []))
      else if take 5 (url_path req) = ''/api/''
      then (if List.member route_methods (http_method req)
            then (let (r, st', sent) =
                        api_route ALLOWED_ADMINS proxy JAI_INTERNAL_API_KEY req
                          (drop 5 (url_path req)) st
                  in (to_response r, st', map Forward sent))
            else (\<lparr>status = 405, payload = Detail ''Method Not Allowed''\<rparr>, st, []))
      else (\<lparr>status = 404, payload = Detail ''Not Found''\<rparr>, st, []))"

definition gateway ::
  "audit_handler option \<Rightarrow> string list \<Rightarrow> (forwarded_request \<Rightarrow> client_result) option \<Rightarrow>
   string option \<Rightarrow> request \<Rightarrow> limiter_state \<Rightarrow> response \<times> limiter_state \<times> effect list" where
  "gateway audit_logger ALLOWED_ADMINS proxy JAI_INTERNAL_API_KEY req st =
     audit_middleware audit_logger req (app ALLOWED_ADMINS proxy JAI_INTERNAL_API_KEY) st"

subsection \<open>A sequence of requests at the limiter\<close>

text \<open>The limiter state after requests of one key at the given times, in order.\<close>

fun hits :: "limiter_state \<Rightarrow> string \<Rightarrow> nat list \<Rightarrow> limiter_state" where
  "hits st key [] = st"
| "hits st key (t # ts) = hits (snd (limiter_hit st key t)) key ts"

subsection \<open>Names used in the statements below\<close>

text \<open>The names that \<^verbatim>\<open>_prepare_internal_headers\<close> sets.\<close>

definition injected_headers :: "string list" where
  "injected_headers =
     [''X-Forwarded-For'', ''X-Forwarded-Proto'', ''X-Gateway-User-ID'', ''X-Gateway-User-Email'',
      ''X-Gateway-User-Roles'', ''X-Gateway-Tenant-ID'', ''X-Gateway-Source'',
      ''X-Internal-API-Key'']"

section \<open>Properties of header rewriting\<close>

lemma pop_all_apply: "pop_all names h k = (if k \<in> set names then None else h k)"
  unfolding pop_all_def by (induction names arbitrary: h) auto

text \<open>The order in which the loop visits the set of hop-by-hop names does not matter.\<close>

lemma remove_hop_by_hop_order:
  "set names = set names' \<Longrightarrow> pop_all names h = pop_all names' h"
  by (rule ext) (simp add: pop_all_apply)

lemma prepare_authorization:
  "prepare_internal_headers key hs tenant usr ''authorization'' = None"
  by (simp add: prepare_internal_headers_def Let_def split: option.splits)

lemma outbound_apply:
  "outbound_headers key hs tenant usr k =
     (if k \<in> set hop_by_hop_headers then None
      else prepare_internal_headers key hs tenant usr k)"
  by (simp add: outbound_headers_def pop_all_apply)

lemma outbound_removed:
  "k \<in> set (''authorization'' # hop_by_hop_headers) \<Longrightarrow>
   outbound_headers key hs tenant usr k = None"
  using prepare_authorization by (auto simp add: outbound_apply)

lemma prepare_kept:
  "k \<noteq> ''authorization'' \<Longrightarrow> k \<notin> set injected_headers \<Longrightarrow>
   prepare_internal_headers key hs tenant usr k = hs k"
  by (simp add: prepare_internal_headers_def Let_def injected_headers_def split: option.splits)

lemma prepare_injected_some:
  "k \<in> set injected_headers \<Longrightarrow> hs k \<noteq> None \<Longrightarrow>
   prepare_internal_headers key hs tenant usr k \<noteq> None"
  unfolding injected_headers_def
  by (elim disjE | simp only: set_simps insert_iff empty_iff)+
     (simp_all add: prepare_internal_headers_def Let_def split: option.splits)

lemma injected_not_removed:
  "k \<in> set injected_headers \<Longrightarrow> lower k \<notin> set (''authorization'' # hop_by_hop_headers)"
  unfolding injected_headers_def
  by (elim disjE | simp only: set_simps insert_iff empty_iff)+
     (simp_all add: hop_by_hop_headers_def lower_def lower_char_def)

lemma lower_removed_names:
  "k \<in> set (''authorization'' # hop_by_hop_headers) \<Longrightarrow> lower k = k"
  unfolding hop_by_hop_headers_def
  by (elim disjE | simp only: set_simps insert_iff empty_iff)+
     (simp_all add: lower_def lower_char_def)

lemma forward_request_sent:
  "snd (forward_request client key m path hs bdy tenant usr) =
     [\<lparr>fr_method = m, fr_url = ''/'' @ dropWhile (\<lambda>c. c = CHR ''/'') path,
       fr_headers = outbound_headers key hs tenant usr, fr_content = bdy\<rparr>]"
  by (simp add: forward_request_def Let_def split: client_result.splits sum.splits option.splits)



text \<open>
  When every key of the inbound dict is in lower case, as in the dict that
  \<^verbatim>\<open>proxy_request\<close> builds from the request, the outbound dict has no entry under any
  spelling of these nine names.
\<close>

lemma outbound_headers_no_spelling:
  assumes low: "\<forall>k \<in> dom hs. lower k = k"
    and k: "lower k \<in> set (''authorization'' # hop_by_hop_headers)"
  shows "outbound_headers key hs tenant usr k = None"
proof (cases "k \<in> set (''authorization'' # hop_by_hop_headers)")
  case True
  then show ?thesis by (rule outbound_removed)
next
  case False
  have ninj: "k \<notin> set injected_headers"
    using injected_not_removed k by blast
  have "hs k = None"
  proof (rule ccontr)
    assume "hs k \<noteq> None"
    then have "lower k = k" using low by (auto simp add: dom_def)
    with k False show False by simp
  qed
  moreover have "prepare_internal_headers key hs tenant usr k = hs k"
    using False ninj by (intro prepare_kept) auto
  ultimately show ?thesis by (simp add: outbound_apply)
qed

text \<open>
  Claim C10. Removal is by exact key. An entry of the inbound dict is absent from the
  outbound dict exactly when its key is one of the nine lower-case names; an entry under
  the key \<^verbatim>\<open>Authorization\<close> or \<^verbatim>\<open>Connection\<close> is in the outbound dict unchanged.
\<close>

theorem C10_removal_is_case_sensitive:
  "(hs k \<noteq> None \<longrightarrow>
      (outbound_headers key hs tenant usr k = None)
        = (k \<in> set (''authorization'' # hop_by_hop_headers))) \<and>
   outbound_headers key hs tenant usr ''Authorization'' = hs ''Authorization'' \<and>
   outbound_headers key hs tenant usr ''Connection'' = hs ''Connection''"
proof (intro conjI impI)
  assume some: "hs k \<noteq> None"
  show "(outbound_headers key hs tenant usr k = None)
          = (k \<in> set (''authorization'' # hop_by_hop_headers))"
  proof (cases "k \<in> set (''authorization'' # hop_by_hop_headers)")
    case True
    then show ?thesis using outbound_removed by simp
  next
    case False
    then have k: "k \<noteq> ''authorization''" "k \<notin> set hop_by_hop_headers" by auto
    have "prepare_internal_headers key hs tenant usr k \<noteq> None"
    proof (cases "k \<in> set injected_headers")
      case True
      then show ?thesis using some by (rule prepare_injected_some)
    next
      case False
      then show ?thesis using some k(1) by (simp add: prepare_kept)
    qed
    then show ?thesis using False k(2) by (simp add: outbound_apply)
  qed
next
  show "outbound_headers key hs tenant usr ''Authorization'' = hs ''Authorization''"
    by (simp add: outbound_apply hop_by_hop_headers_def prepare_kept injected_headers_def)
next
  show "outbound_headers key hs tenant usr ''Connection'' = hs ''Connection''"
    by (simp add: outbound_apply hop_by_hop_headers_def prepare_kept injected_headers_def)
qed

theorem C10_removal_is_case_sensitive_witness:
  "[''Authorization'' \<mapsto> ''Bearer secret''] ''Authorization'' \<noteq> None \<and>
   ''Authorization'' \<notin> set (''authorization'' # hop_by_hop_headers) \<and>
   outbound_headers None [''Authorization'' \<mapsto> ''Bearer secret''] ''t1''
     (get_user_from_api_key ''k'') ''Authorization'' = Some ''Bearer secret''"
  using C10_removal_is_case_sensitive
          [of "[''Authorization'' \<mapsto> ''Bearer secret'']" "''Authorization''" None "''t1''"
              "get_user_from_api_key ''k''"]
  by (simp add: hop_by_hop_headers_def)

text \<open>
  Claim C8. \<^verbatim>\<open>_prepare_internal_headers\<close> returns a new dict and leaves the dict it was
  given as it was: the reference returned is the one allocated by the copy, different
  from the argument, and the store after the call holds under the argument, and under
  every other reference that existed before, the dict it held before. The new dict is
  the one the function on dicts computes.
\<close>

theorem C8_prepare_internal_headers_leaves_input:
  assumes "original < next_ref s"
  shows "(let (r, s') = prepare_internal_headers_ref key original tenant usr s
          in cells s' original = cells s original \<and>
             r \<noteq> original \<and> r = next_ref s \<and>
             (\<forall>a. a < next_ref s \<longrightarrow> cells s' a = cells s a) \<and>
             cells s' r = prepare_internal_headers key (cells s original) tenant usr)"
  using assms
  by (auto simp add: prepare_internal_headers_ref_def prepare_internal_headers_def dict_copy_def
        dict_update_def dict_setitem_def dict_pop_def dict_get_def Let_def
        split: option.splits)

theorem C8_prepare_internal_headers_leaves_input_witness:
  "(0::nat) < next_ref \<lparr>cells = (\<lambda>_. [''authorization'' \<mapsto> ''Bearer secret'']), next_ref = 1\<rparr> \<and>
   cells (snd (prepare_internal_headers_ref (Some ''internal'') 0 ''t1''
                 (get_user_from_api_key ''k'')
                 \<lparr>cells = (\<lambda>_. [''authorization'' \<mapsto> ''Bearer secret'']), next_ref = 1\<rparr>)) 0
     = [''authorization'' \<mapsto> ''Bearer secret''] \<and>
   fst (prepare_internal_headers_ref (Some ''internal'') 0 ''t1''
          (get_user_from_api_key ''k'')
          \<lparr>cells = (\<lambda>_. [''authorization'' \<mapsto> ''Bearer secret'']), next_ref = 1\<rparr>) = 1"
  using C8_prepare_internal_headers_leaves_input
          [of 0 "\<lparr>cells = (\<lambda>_. [''authorization'' \<mapsto> ''Bearer secret'']), next_ref = 1\<rparr>"
              "Some ''internal''" "''t1''" "get_user_from_api_key ''k''"]
  by (simp add: case_prod_beta)

section \<open>Properties of authentication and authorization\<close>

lemma security_none:
  "hv = None \<or> (\<exists>v. hv = Some v \<and> lower (fst (partition_space v)) \<noteq> ''bearer'') \<Longrightarrow>
   security hv = None"
  by (auto simp add: security_def split: prod.splits)

lemma security_credentials:
  "security hv = Some c \<Longrightarrow> \<exists>v. hv = Some v \<and> credentials c = snd (partition_space v)"
  by (auto simp add: security_def split: prod.splits option.splits if_splits)

lemma verify_api_key_rejects:
  assumes "hv = None
           \<or> (\<exists>v. hv = Some v \<and> lower (fst (partition_space v)) \<noteq> ''bearer'')
           \<or> (\<exists>v. hv = Some v \<and> length (snd (partition_space v)) < 32)"
  shows "\<exists>d. verify_api_key (security hv) = Inl (HTTPException 401 d)"
proof (cases "security hv")
  case None
  then show ?thesis by (simp add: verify_api_key_def)
next
  case (Some c)
  then obtain v where v: "hv = Some v" "credentials c = snd (partition_space v)"
    using security_credentials by blast
  have "lower (fst (partition_space v)) = ''bearer''"
    using Some v(1) security_none[of hv] by fastforce
  with assms v have "length (credentials c) < 32" by auto
  with Some show ?thesis by (simp add: verify_api_key_def)
qed

lemma api_route_dependency_error:
  "solve_dependencies A req = Inl e \<Longrightarrow> api_route A proxy key req path st = (Inl e, st, [])"
  by (simp add: api_route_def)

lemma app_api_route:
  assumes "take 5 (url_path req) = ''/api/''" and "List.member route_methods (http_method req)"
  shows "app A proxy key req st =
           (let (r, st', sent) = api_route A proxy key req (drop 5 (url_path req)) st
            in (to_response r, st', map Forward sent))"
proof -
  from assms(1) have "url_path req \<noteq> ''/health''" by auto
  with assms show ?thesis by (simp add: app_def)
qed

text \<open>
  Claim C5. A request whose Authorization header is absent, or whose scheme is not
  bearer, or whose credential has fewer than 32 characters, is answered 401 by the route
  and nothing is sent to the internal API: the route returns the exception of
  \<^verbatim>\<open>verify_api_key\<close>, the limiter state is untouched and the list of forwarded requests
  is empty; through the application the response has status 401 and no effect of the
  request is a forwarded request.
\<close>

theorem C5_missing_or_short_credential_is_401:
  assumes "headers req ''authorization'' = None
           \<or> (\<exists>v. headers req ''authorization'' = Some v
                  \<and> lower (fst (partition_space v)) \<noteq> ''bearer'')
           \<or> (\<exists>v. headers req ''authorization'' = Some v
                  \<and> length (snd (partition_space v)) < 32)"
  shows "(\<exists>d. api_route A proxy key req path st = (Inl (HTTPException 401 d), st, [])) \<and>
         (take 5 (url_path req) = ''/api/'' \<and> List.member route_methods (http_method req) \<longrightarrow>
            status (fst (gateway lg A proxy key req st)) = 401 \<and>
            (\<forall>f. Forward f \<notin> set (snd (snd (gateway lg A proxy key req st)))))"
proof -
  obtain d where d: "verify_api_key (security (headers req ''authorization''))
                       = Inl (HTTPException 401 d)"
    using verify_api_key_rejects[OF assms] by blast
  then have dep: "solve_dependencies A req = Inl (HTTPException 401 d)"
    by (simp add: solve_dependencies_def)
  then have route: "\<And>p. api_route A proxy key req p st = (Inl (HTTPException 401 d), st, [])"
    by (rule api_route_dependency_error)
  have "status (fst (gateway lg A proxy key req st)) = 401 \<and>
        (\<forall>f. Forward f \<notin> set (snd (snd (gateway lg A proxy key req st))))"
    if "take 5 (url_path req) = ''/api/''" "List.member route_methods (http_method req)"
    using app_api_route[OF that, of A proxy key st] route
    by (auto simp add: gateway_def audit_middleware_def to_response_def split: option.splits)
  with route show ?thesis by blast
qed

theorem C5_missing_or_short_credential_witness:
  "length (snd (partition_space ''Bearer too-short'')) < 32 \<and>
   (\<exists>d. api_route [] (Some (\<lambda>_. NetworkFailure ''unused'')) None
          \<lparr>http_method = ''GET'', url_path = ''/api/modules'',
           headers = [''authorization'' \<mapsto> ''Bearer too-short'', ''x-tenant-id'' \<mapsto> ''t1''],
           body = [], client_host = Some ''10.0.0.1'', arrival = 0\<rparr> ''modules'' Map.empty
        = (Inl (HTTPException 401 d), Map.empty, []))"
  using C5_missing_or_short_credential_is_401
          [of "\<lparr>http_method = ''GET'', url_path = ''/api/modules'',
                headers = [''authorization'' \<mapsto> ''Bearer too-short'', ''x-tenant-id'' \<mapsto> ''t1''],
                body = [], client_host = Some ''10.0.0.1'', arrival = 0\<rparr>"
              "[]" "Some (\<lambda>_. NetworkFailure ''unused'')" None "''modules''" Map.empty]
  by (simp add: partition_space_def)

text \<open>
  Claim C6. A user whose roles share nothing with \<^verbatim>\<open>system_admin\<close>, \<^verbatim>\<open>org_admin\<close> fails
  the admin check with 403 and the detail that admin privileges are required; a user
  with an admin role whose email is not in a non-empty allow-list fails it with 403 and
  the detail that the admin is not authorized.
\<close>

theorem C6_admin_check_rejects:
  "(set (get_or (roles usr) []) \<inter> {''system_admin'', ''org_admin''} = {} \<longrightarrow>
      check_admin A usr = Inl (HTTPException 403 ''MCP access requires admin privileges'')) \<and>
   (set (get_or (roles usr) []) \<inter> {''system_admin'', ''org_admin''} \<noteq> {} \<and> A \<noteq> [] \<and>
    get_or (email usr) [] \<notin> set A \<longrightarrow>
      check_admin A usr = Inl (HTTPException 403 ''Admin not authorized for MCP access''))"
  by (auto simp add: check_admin_def Let_def list_ex_iff admin_roles_def)

theorem C6_admin_check_rejects_witness:
  "set (get_or (roles \<lparr>user_id = Some ''u1'', email = Some ''viewer@example.com'',
                       roles = Some [''viewer''], tenant_id = Some ''t1'',
                       permissions = None\<rparr>) [])
     \<inter> {''system_admin'', ''org_admin''} = {} \<and>
   check_admin [] \<lparr>user_id = Some ''u1'', email = Some ''viewer@example.com'',
                   roles = Some [''viewer''], tenant_id = Some ''t1'', permissions = None\<rparr>
     = Inl (HTTPException 403 ''MCP access requires admin privileges'') \<and>
   set (get_or (roles \<lparr>user_id = Some ''u2'', email = Some ''eve@example.com'',
                       roles = Some [''org_admin''], tenant_id = Some ''t1'',
                       permissions = None\<rparr>) [])
     \<inter> {''system_admin'', ''org_admin''} \<noteq> {} \<and>
   get_or (email \<lparr>user_id = Some ''u2'', email = Some ''eve@example.com'',
                   roles = Some [''org_admin''], tenant_id = Some ''t1'',
                   permissions = None\<rparr>) [] \<notin> set [''bob@example.com''] \<and>
   check_admin [''bob@example.com'']
     \<lparr>user_id = Some ''u2'', email = Some ''eve@example.com'',
      roles = Some [''org_admin''], tenant_id = Some ''t1'', permissions = None\<rparr>
     = Inl (HTTPException 403 ''Admin not authorized for MCP access'')"
  using C6_admin_check_rejects
          [of "\<lparr>user_id = Some ''u1'', email = Some ''viewer@example.com'',
                roles = Some [''viewer''], tenant_id = Some ''t1'', permissions = None\<rparr>" "[]"]
        C6_admin_check_rejects
          [of "\<lparr>user_id = Some ''u2'', email = Some ''eve@example.com'',
                roles = Some [''org_admin''], tenant_id = Some ''t1'', permissions = None\<rparr>"
              "[''bob@example.com'']"]
  by (simp add: get_or_def)


lemma verify_admin_access_mock:
  "verify_admin_access A api_key =
     (if A = [] \<or> ''admin@example.com'' \<in> set A then Inr (get_user_from_api_key api_key)
      else Inl (HTTPException 403 ''Admin not authorized for MCP access''))"
  by (simp add: verify_admin_access_def check_admin_def get_user_from_api_key_def Let_def
        admin_roles_def get_or_def)



section \<open>Properties of the route\<close>

lemma verify_tenant_access_system_admin:
  "''system_admin'' \<in> set (get_or (roles usr) []) \<Longrightarrow> verify_tenant_access tenant usr = Inr tenant"
  by (simp add: verify_tenant_access_def)

lemma verify_tenant_access_other_tenant:
  "''system_admin'' \<notin> set (get_or (roles usr) []) \<Longrightarrow> tenant_id usr \<noteq> Some tenant \<Longrightarrow>
   verify_tenant_access tenant usr = Inl (HTTPException 403 ''Cross-tenant access denied'')"
  by (simp add: verify_tenant_access_def)

text \<open>
  \<^verbatim>\<open>proxy_request\<close> forwards for every user and tenant it is called with: it never
  compares the tenant with the user's. \<open>solve_dependencies\<close>, which gives it both, calls
  \<^verbatim>\<open>verify_admin_access\<close> and \<^verbatim>\<open>get_tenant_from_request\<close> and not
  \<^verbatim>\<open>verify_tenant_access\<close>.
\<close>

lemma proxy_request_sent:
  "snd (proxy_request (Some client) key req path admin_user tenant) =
     [\<lparr>fr_method = http_method req, fr_url = ''/'' @ dropWhile (\<lambda>c. c = CHR ''/'') path,
       fr_headers = outbound_headers key (headers req) tenant admin_user,
       fr_content = (if List.member [''POST'', ''PUT''] (http_method req) then Some (body req)
                     else None)\<rparr>]"
proof -
  have "snd (proxy_request (Some client) key req path admin_user tenant) =
        snd (forward_request client key (http_method req) path (headers req)
               (if List.member [''POST'', ''PUT''] (http_method req) then Some (body req) else None)
               tenant admin_user)"
    by (simp add: proxy_request_def case_prod_beta split: sum.splits)
  then show ?thesis by (simp only: forward_request_sent)
qed


subsection \<open>The limiter and the order of checks\<close>

lemma limiter_hit_exhausted:
  assumes "st k = Some (window_start, n)" "limit_count \<le> n" "now < window_start + limit_window"
  shows "limiter_hit st k now = (False, st)"
  using assms by (simp add: limiter_hit_def)

lemma limiter_hit_in_window:
  assumes "st k = Some (window_start, n)" "n < limit_count" "now < window_start + limit_window"
  shows "limiter_hit st k now = (True, st(k \<mapsto> (window_start, Suc n)))"
  using assms by (simp add: limiter_hit_def)

lemma hits_in_window:
  "st k = Some (t0, n) \<Longrightarrow> \<forall>t \<in> set ts. t < t0 + limit_window \<Longrightarrow>
   n + length ts \<le> limit_count \<Longrightarrow> hits st k ts k = Some (t0, n + length ts)"
proof (induction ts arbitrary: st n)
  case Nil
  then show ?case by simp
next
  case (Cons t ts)
  from Cons.prems have n: "n < limit_count" and t: "t < t0 + limit_window" by auto
  have step: "snd (limiter_hit st k t) = st(k \<mapsto> (t0, Suc n))"
    using limiter_hit_in_window[of st k t0 n t] Cons.prems(1) n t by simp
  have "hits (st(k \<mapsto> (t0, Suc n))) k ts k = Some (t0, Suc n + length ts)"
    using Cons.prems by (intro Cons.IH) auto
  with step show ?case by simp
qed

text \<open>
  Sixty requests of a key inside one window, the first at \<open>t0\<close> on a state that does
  not know the key, leave the key with a full count; the next request inside the window
  is refused by the limiter.
\<close>

lemma hits_fill_window:
  assumes "st k = None" "length ts = 59" "\<forall>t \<in> set ts. t < t0 + limit_window"
  shows "hits st k (t0 # ts) k = Some (t0, limit_count)"
proof -
  have first: "snd (limiter_hit st k t0) = st(k \<mapsto> (t0, 1))"
    using assms(1) by (simp add: limiter_hit_def)
  have "hits (st(k \<mapsto> (t0, 1))) k ts k = Some (t0, 1 + length ts)"
    using assms by (intro hits_in_window) (auto simp add: limit_count_def)
  with first assms(2) show ?thesis by (simp add: limit_count_def)
qed

text \<open>
  Claim C2, as stated, fails: the key \<^verbatim>\<open>10.0.0.1\<close> has made 60 requests in the window
  that started at second 0, and its next request, at second 30, has no Authorization
  header. The limiter would refuse the request, but the route answers 401: the limiter
  is not asked.
\<close>

theorem C2_rate_limit_first_counterexample:
  "limiter_hit [''10.0.0.1'' \<mapsto> (0, 60)] ''10.0.0.1'' 30 = (False, [''10.0.0.1'' \<mapsto> (0, 60)]) \<and>
   api_route [] (Some (\<lambda>_. NetworkFailure ''unused'')) None
     \<lparr>http_method = ''GET'', url_path = ''/api/modules'', headers = [''x-tenant-id'' \<mapsto> ''t1''],
      body = [], client_host = Some ''10.0.0.1'', arrival = 30\<rparr>
     ''modules'' [''10.0.0.1'' \<mapsto> (0, 60)]
   = (Inl (HTTPException 401 ''API key required''), [''10.0.0.1'' \<mapsto> (0, 60)], [])"
  by (simp add: limiter_hit_def limit_count_def limit_window_def api_route_def
        solve_dependencies_def security_def verify_api_key_def)

text \<open>
  Claim C2, amended. When the key of the request has made its 60 requests inside the
  active window, the route answers 429 and forwards nothing if the request passes the
  credential check, the admin check and the tenant-header check; if it fails one of
  them the route answers with that check's exception (401, 403 or 400), as it does when
  the key is under its limit. In both cases the limiter state is unchanged.
\<close>

theorem C2_rate_limit_after_dependencies:
  assumes "st (get_remote_address req) = Some (window_start, n)"
    and "limit_count \<le> n"
    and "arrival req < window_start + limit_window"
  shows "api_route A proxy key req path st =
           (case solve_dependencies A req of
              Inl e \<Rightarrow> (Inl e, st, [])
            | Inr _ \<Rightarrow> (Inl (HTTPException 429 ''Rate limit exceeded''), st, []))"
  using limiter_hit_exhausted[of st "get_remote_address req" window_start n "arrival req"] assms
  by (simp add: api_route_def split: sum.splits prod.splits)

theorem C2_rate_limit_after_dependencies_witness:
  "[''10.0.0.1'' \<mapsto> (0::nat, 60::nat)]
     (get_remote_address
        \<lparr>http_method = ''GET'', url_path = ''/api/modules'',
         headers = [''authorization'' \<mapsto> ''Bearer 0123456789abcdef0123456789abcdef'',
                    ''x-tenant-id'' \<mapsto> ''t1''],
         body = [], client_host = Some ''10.0.0.1'', arrival = 30\<rparr>) = Some (0, 60) \<and>
   limit_count \<le> 60 \<and> (30::nat) < 0 + limit_window \<and>
   api_route [] (Some (\<lambda>_. NetworkFailure ''unused'')) None
     \<lparr>http_method = ''GET'', url_path = ''/api/modules'',
      headers = [''authorization'' \<mapsto> ''Bearer 0123456789abcdef0123456789abcdef'',
                 ''x-tenant-id'' \<mapsto> ''t1''],
      body = [], client_host = Some ''10.0.0.1'', arrival = 30\<rparr>
     ''modules'' [''10.0.0.1'' \<mapsto> (0, 60)]
   = (Inl (HTTPException 429 ''Rate limit exceeded''), [''10.0.0.1'' \<mapsto> (0, 60)], [])"
  using C2_rate_limit_after_dependencies
          [of "[''10.0.0.1'' \<mapsto> (0, 60)]"
              "\<lparr>http_method = ''GET'', url_path = ''/api/modules'',
                headers = [''authorization'' \<mapsto> ''Bearer 0123456789abcdef0123456789abcdef'',
                           ''x-tenant-id'' \<mapsto> ''t1''],
                body = [], client_host = Some ''10.0.0.1'', arrival = 30\<rparr>"
              0 60 "[]" "Some (\<lambda>_. NetworkFailure ''unused'')" None "''modules''"]
  by (simp add: get_remote_address_def get_or_def limit_count_def limit_window_def
        solve_dependencies_def security_def partition_space_def lower_def lower_char_def
        verify_api_key_def verify_admin_access_mock get_tenant_from_request_def)

section \<open>Properties of forwarding\<close>

lemma forward_request_status_error:
  assumes "client \<lparr>fr_method = m, fr_url = ''/'' @ dropWhile (\<lambda>c. c = CHR ''/'') path,
                    fr_headers = outbound_headers key hs tenant usr, fr_content = bdy\<rparr>
             = Responded response"
    and "400 \<le> up_status response" and "up_status response \<le> 599"
  shows "fst (forward_request client key m path hs bdy tenant usr) = Inl (HTTPStatusError response)"
  using assms by (simp add: forward_request_def Let_def raise_for_status_def)

lemma forward_request_network_failure:
  assumes "client \<lparr>fr_method = m, fr_url = ''/'' @ dropWhile (\<lambda>c. c = CHR ''/'') path,
                    fr_headers = outbound_headers key hs tenant usr, fr_content = bdy\<rparr>
             = NetworkFailure e"
  shows "fst (forward_request client key m path hs bdy tenant usr) = Inl (RequestError e)"
  using assms by (simp add: forward_request_def Let_def)

lemma proxy_request_exception:
  assumes "fst (forward_request client key (http_method req) path (headers req)
                  (if List.member [''POST'', ''PUT''] (http_method req) then Some (body req) else None)
                  tenant admin_user) = Inl e"
  shows "fst (proxy_request (Some client) key req path admin_user tenant)
           = Inl (HTTPException 500 ''Internal server error'')"
  using assms by (simp add: proxy_request_def case_prod_beta)

text \<open>
  Claim C3, as stated, fails: the internal API answers 404 with a body, and the response
  of the route has status 500 and the detail \<^verbatim>\<open>Internal server error\<close>, not the
  upstream's status and body.
\<close>

theorem C3_upstream_status_counterexample:
  "to_response
     (fst (proxy_request
             (Some (\<lambda>_. Responded \<lparr>up_status = 404, up_content = ''no such module'',
                                    up_json = None\<rparr>)) None
             \<lparr>http_method = ''GET'', url_path = ''/api/modules/7'',
              headers = [''authorization'' \<mapsto> ''Bearer 0123456789abcdef0123456789abcdef'',
                         ''x-tenant-id'' \<mapsto> ''t1''],
              body = [], client_host = Some ''10.0.0.1'', arrival = 0\<rparr>
             ''modules/7'' (get_user_from_api_key ''0123456789abcdef0123456789abcdef'') ''t1''))
   = \<lparr>status = 500, payload = Detail ''Internal server error''\<rparr>"
  by (simp add: proxy_request_def forward_request_def raise_for_status_def Let_def
        to_response_def)

text \<open>
  Claim C3, amended. For an upstream response with a 4xx or 5xx status,
  \<^verbatim>\<open>forward_request\<close> raises \<^verbatim>\<open>HTTPStatusError\<close> carrying that response, status and body;
  for a failure of the network it raises \<^verbatim>\<open>RequestError\<close>, a different exception. The
  route \<^verbatim>\<open>proxy_request\<close> catches both and raises the same \<^verbatim>\<open>HTTPException\<close> with status
  500 and detail \<^verbatim>\<open>Internal server error\<close>, which is the response to the caller.
\<close>

theorem C3_upstream_errors_reach_caller_as_500:
  assumes "sent = \<lparr>fr_method = http_method req, fr_url = ''/'' @ dropWhile (\<lambda>c. c = CHR ''/'') path,
                   fr_headers = outbound_headers key (headers req) tenant admin_user,
                   fr_content = (if List.member [''POST'', ''PUT''] (http_method req)
                                 then Some (body req) else None)\<rparr>"
    and "400 \<le> up_status response" and "up_status response \<le> 599"
    and "client sent = Responded response" and "client' sent = NetworkFailure e"
  shows "fst (forward_request client key (http_method req) path (headers req) (fr_content sent)
                tenant admin_user) = Inl (HTTPStatusError response) \<and>
         fst (forward_request client' key (http_method req) path (headers req) (fr_content sent)
                tenant admin_user) = Inl (RequestError e) \<and>
         HTTPStatusError response \<noteq> RequestError e \<and>
         to_response (fst (proxy_request (Some client) key req path admin_user tenant))
           = \<lparr>status = 500, payload = Detail ''Internal server error''\<rparr> \<and>
         to_response (fst (proxy_request (Some client') key req path admin_user tenant))
           = \<lparr>status = 500, payload = Detail ''Internal server error''\<rparr>"
proof -
  have c: "fr_content sent = (if List.member [''POST'', ''PUT''] (http_method req)
                              then Some (body req) else None)"
    using assms(1) by simp
  have a: "fst (forward_request client key (http_method req) path (headers req) (fr_content sent)
                  tenant admin_user) = Inl (HTTPStatusError response)"
    using assms(1,4) by (intro forward_request_status_error assms(2,3)) (simp add: c)
  have b: "fst (forward_request client' key (http_method req) path (headers req) (fr_content sent)
                  tenant admin_user) = Inl (RequestError e)"
    using assms(1,5) by (intro forward_request_network_failure) (simp add: c)
  have "fst (proxy_request (Some client) key req path admin_user tenant)
          = Inl (HTTPException 500 ''Internal server error'')"
    using a unfolding c by (rule proxy_request_exception)
  moreover have "fst (proxy_request (Some client') key req path admin_user tenant)
          = Inl (HTTPException 500 ''Internal server error'')"
    using b unfolding c by (rule proxy_request_exception)
  ultimately show ?thesis using a b by (simp add: to_response_def)
qed

theorem C3_upstream_errors_witness:
  "(400::nat) \<le> up_status \<lparr>up_status = 503, up_content = ''busy'', up_json = None\<rparr> \<and>
   up_status \<lparr>up_status = 503, up_content = ''busy'', up_json = None\<rparr> \<le> 599 \<and>
   to_response
     (fst (proxy_request
             (Some (\<lambda>_. Responded \<lparr>up_status = 503, up_content = ''busy'', up_json = None\<rparr>))
             None
             \<lparr>http_method = ''POST'', url_path = ''/api/modules'',
              headers = [''x-tenant-id'' \<mapsto> ''t1''],
              body = ''{}'', client_host = Some ''10.0.0.1'', arrival = 0\<rparr>
             ''modules'' (get_user_from_api_key ''k'') ''t1''))
   = \<lparr>status = 500, payload = Detail ''Internal server error''\<rparr> \<and>
   to_response
     (fst (proxy_request
             (Some (\<lambda>_. NetworkFailure ''connection refused''))
             None
             \<lparr>http_method = ''POST'', url_path = ''/api/modules'',
              headers = [''x-tenant-id'' \<mapsto> ''t1''],
              body = ''{}'', client_host = Some ''10.0.0.1'', arrival = 0\<rparr>
             ''modules'' (get_user_from_api_key ''k'') ''t1''))
   = \<lparr>status = 500, payload = Detail ''Internal server error''\<rparr>"
  using C3_upstream_errors_reach_caller_as_500
          [OF refl,
           where response = "\<lparr>up_status = 503, up_content = ''busy'', up_json = None\<rparr>"
             and client = "\<lambda>_. Responded \<lparr>up_status = 503, up_content = ''busy'', up_json = None\<rparr>"
             and client' = "\<lambda>_. NetworkFailure ''connection refused''"
             and e = "''connection refused''"
             and req = "\<lparr>http_method = ''POST'', url_path = ''/api/modules'',
                         headers = [''x-tenant-id'' \<mapsto> ''t1''],
                         body = ''{}'', client_host = Some ''10.0.0.1'', arrival = 0\<rparr>"
             and path = "''modules''" and key = None and tenant = "''t1''"
             and admin_user = "get_user_from_api_key ''k''"]
  by simp

section \<open>Properties of the audit middleware\<close>


lemma audit_middleware_disabled:
  "audit_middleware None req call_next st = call_next req st"
  by (simp add: audit_middleware_def case_prod_beta)






end
